theory Spec2Isabelle
  imports Complex_Main
begin

section \<open>Numbers and the Math library\<close>

text \<open>
  The engine (src/src/trust-engine.ts) computes on JavaScript numbers, which are IEEE 754
  binary64 values. A finite number is modelled by the real it denotes. The special
  values NaN and Infinity are not modelled, so the model follows the program as long as
  no operation overflows; statements that depend on this carry an explicit bound on the
  inputs.

  The scorer's operations \<open>+\<close>, \<open>*\<close> and \<open>/\<close> round their exact result to binary64:
  to the nearest value with a 53-bit significand, a tie going to the even significand,
  with gradual underflow below 2 to the power -1022. \<open>round_even\<close> is the rounding of the
  scaled significand and \<open>fl\<close> the rounding of a real.
\<close>

definition round_even :: "real \<Rightarrow> int" where
  "round_even q =
     (let f = \<lfloor>q\<rfloor>
      in if q - of_int f < 1 / 2 then f
         else if 1 / 2 < q - of_int f then f + 1
         else if even f then f else f + 1)"

definition fl_exp :: "real \<Rightarrow> int" where
  "fl_exp x = max \<lfloor>log 2 \<bar>x\<bar>\<rfloor> (- 1022)"

definition fl_ulp :: "real \<Rightarrow> real" where
  "fl_ulp x = 2 powr of_int (fl_exp x - 52)"

definition fl :: "real \<Rightarrow> real" where
  "fl x = (if x = 0 then 0 else of_int (round_even (x / fl_ulp x)) * fl_ulp x)"

definition fadd :: "real \<Rightarrow> real \<Rightarrow> real" where
  "fadd a b = fl (a + b)"

definition fmul :: "real \<Rightarrow> real \<Rightarrow> real" where
  "fmul a b = fl (a * b)"

definition fdiv :: "real \<Rightarrow> real \<Rightarrow> real" where
  "fdiv a b = fl (a / b)"

text \<open>
  \<open>Math.round\<close> rounds to the nearest integer and a tie goes up (towards plus
  infinity), which is \<open>\<lfloor>x + 1/2\<rfloor>\<close>; on a binary64 value this result is exact.
  \<open>Math.min\<close> and \<open>Math.max\<close> are \<open>min\<close> and \<open>max\<close>.

  The value of \<open>Math.pow\<close> is implementation-approximated in ECMAScript. The decay
  is therefore modelled in exact arithmetic: the factor is the real power \<open>powr\<close> of
  the base \<open>1 - DECAY_RATE_MONTHLY\<close>, and the elapsed months and the product with the
  score are exact. The program's decayed score is the nearest integer to a binary64
  approximation of that product, so it can differ from the model's by one where the
  product is within rounding error of a half-integer.
\<close>

definition Math_round :: "real \<Rightarrow> real" where
  "Math_round x = of_int \<lfloor>x + 1 / 2\<rfloor>"

definition Math_pow :: "real \<Rightarrow> real \<Rightarrow> real" where
  "Math_pow b e = b powr e"

text \<open>
  The rounding that section 4.1 of the spec describes: to the nearest integer, a tie
  going away from zero. It is not part of the program; it is the second rounding that
  \<open>Math.round\<close> is compared with.
\<close>

definition spec_round :: "real \<Rightarrow> int" where
  "spec_round x = (if 0 \<le> x then \<lfloor>x + 1 / 2\<rfloor> else - \<lfloor>- x + 1 / 2\<rfloor>)"

section \<open>Data model\<close>

datatype VerificationTier = UNVERIFIED | BASIC | VERIFIED | AUDITED | ENTERPRISE

record AgentPlatformData =
  agentId :: string
  agentName :: string
  solanaWallet :: string
  denMessages :: real
  dmsSent :: real
  promptResponses :: real
  verifiedSkills :: real
  totalSkills :: real
  endorsementsReceived :: real
  endorserAvgTrust :: real
  reviewCount :: real
  avgReviewScore :: real
  uptimePercent :: real
  responseQuality :: real
  walletAge :: real
  txCount :: real
  securityAuditPassed :: bool
  auditScore :: real
  accountAgeDays :: real
  verificationTier :: VerificationTier
  lastActivityAt :: real

text \<open>
  The attestation of schema.d.ts. Five of its fields have the names of input fields; the
  attestation's own are written with the prefix \<open>att_\<close>.
\<close>

record TrustAttestation =
  att_agentId :: string
  att_agentName :: string
  att_solanaWallet :: string
  trustScore :: real
  platformActivity :: real
  skillVerifications :: real
  endorsements :: real
  reviews :: real
  deploymentMetrics :: real
  onchainReputation :: real
  securityAudit :: real
  accountAge :: real
  att_verificationTier :: VerificationTier
  attestedAt :: real
  attestedBy :: string
  version :: real
  att_lastActivityAt :: real
  decayRate :: real

text \<open>The object returned by \<open>getCurrentScore\<close>.\<close>

record CurrentScore =
  currentScore :: real
  decayApplied :: real

section \<open>Configuration\<close>

text \<open>The keys of the \<open>WEIGHTS\<close> and \<open>components\<close> objects, in the order they are written.\<close>

datatype ComponentKey =
  K_platformActivity | K_skillVerifications | K_endorsements | K_reviews
  | K_deploymentMetrics | K_onchainReputation | K_securityAudit | K_accountAge

definition component_keys :: "ComponentKey list" where
  "component_keys =
     [K_platformActivity, K_skillVerifications, K_endorsements, K_reviews,
      K_deploymentMetrics, K_onchainReputation, K_securityAudit, K_accountAge]"

fun WEIGHTS :: "ComponentKey \<Rightarrow> real" where
  "WEIGHTS K_platformActivity = 150"
| "WEIGHTS K_skillVerifications = 150"
| "WEIGHTS K_endorsements = 150"
| "WEIGHTS K_reviews = 150"
| "WEIGHTS K_deploymentMetrics = 150"
| "WEIGHTS K_onchainReputation = 100"
| "WEIGHTS K_securityAudit = 100"
| "WEIGHTS K_accountAge = 50"

definition DECAY_RATE_MONTHLY :: real where
  "DECAY_RATE_MONTHLY = 5 / 100"

definition DECAY_COMPONENTS :: "ComponentKey list" where
  "DECAY_COMPONENTS = [K_platformActivity, K_endorsements, K_reviews, K_deploymentMetrics]"

section \<open>Component scores\<close>

definition calcPlatformActivity :: "AgentPlatformData \<Rightarrow> real" where
  "calcPlatformActivity data =
     (let messageScore = fmul (min (fdiv (denMessages data) 100) 1) 60;
          dmScore = fmul (min (fdiv (dmsSent data) 50) 1) 40;
          promptScore = fmul (min (fdiv (promptResponses data) 10) 1) 50
      in min (Math_round (fadd (fadd messageScore dmScore) promptScore))
           (WEIGHTS K_platformActivity))"

definition calcSkillVerifications :: "AgentPlatformData \<Rightarrow> real" where
  "calcSkillVerifications data =
     (if totalSkills data = 0 then 0
      else let ratio = fdiv (verifiedSkills data) (max (totalSkills data) 1);
               countBonus = fmul (min (fdiv (verifiedSkills data) 10) 1) 50
           in min (Math_round (fadd (fmul ratio 100) countBonus))
                (WEIGHTS K_skillVerifications))"

definition calcEndorsements :: "AgentPlatformData \<Rightarrow> real" where
  "calcEndorsements data =
     (let countScore = fmul (min (fdiv (endorsementsReceived data) 20) 1) 75;
          qualityScore = fmul (fdiv (endorserAvgTrust data) 1000) 75
      in min (Math_round (fadd countScore qualityScore)) (WEIGHTS K_endorsements))"

definition calcReviews :: "AgentPlatformData \<Rightarrow> real" where
  "calcReviews data =
     (let countScore = fmul (min (fdiv (reviewCount data) 15) 1) 75;
          qualityScore = fmul (fdiv (avgReviewScore data) 5) 75
      in min (Math_round (fadd countScore qualityScore)) (WEIGHTS K_reviews))"

definition calcDeploymentMetrics :: "AgentPlatformData \<Rightarrow> real" where
  "calcDeploymentMetrics data =
     (let uptimeScore = fmul (fdiv (uptimePercent data) 100) 75;
          qualityScore = fmul (fdiv (responseQuality data) 100) 75
      in min (Math_round (fadd uptimeScore qualityScore)) (WEIGHTS K_deploymentMetrics))"

definition calcOnchainReputation :: "AgentPlatformData \<Rightarrow> real" where
  "calcOnchainReputation data =
     (let ageScore = fmul (min (fdiv (walletAge data) 365) 1) 50;
          txScore = fmul (min (fdiv (txCount data) 100) 1) 50
      in min (Math_round (fadd ageScore txScore)) (WEIGHTS K_onchainReputation))"

definition calcSecurityAudit :: "AgentPlatformData \<Rightarrow> real" where
  "calcSecurityAudit data =
     (if \<not> securityAuditPassed data then 0
      else min (auditScore data) (WEIGHTS K_securityAudit))"

definition calcAccountAge :: "AgentPlatformData \<Rightarrow> real" where
  "calcAccountAge data =
     min (Math_round (fmul (min (fdiv (accountAgeDays data) 180) 1) (WEIGHTS K_accountAge)))
         (WEIGHTS K_accountAge)"

section \<open>Decay\<close>

definition applyDecay :: "real \<Rightarrow> real \<Rightarrow> real \<Rightarrow> real" where
  "applyDecay score lastActivity now =
     (let monthsInactive = (now - lastActivity) / (30 * 24 * 60 * 60 * 1000)
      in if monthsInactive \<le> 0 then score
         else let decayFactor = Math_pow (1 - DECAY_RATE_MONTHLY) monthsInactive
              in Math_round (score * decayFactor))"

section \<open>Assembling the attestation\<close>

text \<open>
  \<open>Date.now()\<close> is the argument \<open>now\<close>. The \<open>components\<close> object is a function on its
  eight keys; the loop over \<open>DECAY_COMPONENTS\<close> overwrites one key of the copy \<open>decayed\<close>
  per round, and \<open>Object.values(decayed).reduce\<close> adds the values up from 0 in key
  order, each addition rounded to binary64.
\<close>

definition components :: "AgentPlatformData \<Rightarrow> ComponentKey \<Rightarrow> real" where
  "components data key =
     (case key of
        K_platformActivity \<Rightarrow> calcPlatformActivity data
      | K_skillVerifications \<Rightarrow> calcSkillVerifications data
      | K_endorsements \<Rightarrow> calcEndorsements data
      | K_reviews \<Rightarrow> calcReviews data
      | K_deploymentMetrics \<Rightarrow> calcDeploymentMetrics data
      | K_onchainReputation \<Rightarrow> calcOnchainReputation data
      | K_securityAudit \<Rightarrow> calcSecurityAudit data
      | K_accountAge \<Rightarrow> calcAccountAge data)"

definition decay_loop ::
  "(ComponentKey \<Rightarrow> real) \<Rightarrow> real \<Rightarrow> real \<Rightarrow> ComponentKey list
     \<Rightarrow> (ComponentKey \<Rightarrow> real) \<Rightarrow> (ComponentKey \<Rightarrow> real)" where
  "decay_loop comps lastActivity now keys decayed =
     fold (\<lambda>key d. d(key := applyDecay (comps key) lastActivity now)) keys decayed"

definition calculateTrustScore :: "real \<Rightarrow> AgentPlatformData \<Rightarrow> TrustAttestation" where
  "calculateTrustScore now data =
     (let comps = components data;
          decayed = decay_loop comps (lastActivityAt data) now DECAY_COMPONENTS comps;
          total = foldl (\<lambda>sum v. fadd sum v) 0 (map decayed component_keys)
      in \<lparr> att_agentId = agentId data,
           att_agentName = agentName data,
           att_solanaWallet = solanaWallet data,
           trustScore = total,
           platformActivity = decayed K_platformActivity,
           skillVerifications = decayed K_skillVerifications,
           endorsements = decayed K_endorsements,
           reviews = decayed K_reviews,
           deploymentMetrics = decayed K_deploymentMetrics,
           onchainReputation = decayed K_onchainReputation,
           securityAudit = decayed K_securityAudit,
           accountAge = decayed K_accountAge,
           att_verificationTier = verificationTier data,
           attestedAt = now,
           attestedBy = ''moltbotden-oracle'',
           version = 1,
           att_lastActivityAt = lastActivityAt data,
           decayRate = DECAY_RATE_MONTHLY * 100 \<rparr>)"

section \<open>Current score at query time\<close>

definition getCurrentScore :: "real \<Rightarrow> TrustAttestation \<Rightarrow> CurrentScore" where
  "getCurrentScore now attestation =
     (let monthsInactive = (now - att_lastActivityAt attestation) / (30 * 24 * 60 * 60 * 1000)
      in if monthsInactive \<le> 0
         then \<lparr> currentScore = trustScore attestation, decayApplied = 0 \<rparr>
         else let decayFactor = Math_pow (1 - DECAY_RATE_MONTHLY) monthsInactive;
                  activityComponents =
                    platformActivity attestation + endorsements attestation
                    + reviews attestation + deploymentMetrics attestation;
                  stableComponents = trustScore attestation - activityComponents;
                  decayedActivity = Math_round (activityComponents * decayFactor);
                  current = stableComponents + decayedActivity
              in \<lparr> currentScore = current,
                   decayApplied = trustScore attestation - current \<rparr>)"

section \<open>Predicates on inputs and attestations\<close>

text \<open>
  The raw metrics of an input are non-negative. The timestamp \<open>lastActivityAt\<close> is left
  free: the results below hold for any value of it.
\<close>

definition nonneg_input :: "AgentPlatformData \<Rightarrow> bool" where
  "nonneg_input d \<longleftrightarrow>
     0 \<le> denMessages d \<and> 0 \<le> dmsSent d \<and> 0 \<le> promptResponses d
     \<and> 0 \<le> verifiedSkills d \<and> 0 \<le> totalSkills d
     \<and> 0 \<le> endorsementsReceived d \<and> 0 \<le> endorserAvgTrust d
     \<and> 0 \<le> reviewCount d \<and> 0 \<le> avgReviewScore d
     \<and> 0 \<le> uptimePercent d \<and> 0 \<le> responseQuality d
     \<and> 0 \<le> walletAge d \<and> 0 \<le> txCount d
     \<and> 0 \<le> auditScore d \<and> 0 \<le> accountAgeDays d"

text \<open>
  No raw metric is below minus 10 to the power 300. For a finite binary64 input this excludes an
  overflow to minus infinity in the scorer (the largest factor is 100), and with it NaN
  in the decay.
\<close>

definition bounded_below_input :: "AgentPlatformData \<Rightarrow> bool" where
  "bounded_below_input d \<longleftrightarrow>
     - (10 ^ 300) \<le> denMessages d \<and> - (10 ^ 300) \<le> dmsSent d
     \<and> - (10 ^ 300) \<le> promptResponses d
     \<and> - (10 ^ 300) \<le> verifiedSkills d \<and> - (10 ^ 300) \<le> totalSkills d
     \<and> - (10 ^ 300) \<le> endorsementsReceived d \<and> - (10 ^ 300) \<le> endorserAvgTrust d
     \<and> - (10 ^ 300) \<le> reviewCount d \<and> - (10 ^ 300) \<le> avgReviewScore d
     \<and> - (10 ^ 300) \<le> uptimePercent d \<and> - (10 ^ 300) \<le> responseQuality d
     \<and> - (10 ^ 300) \<le> walletAge d \<and> - (10 ^ 300) \<le> txCount d
     \<and> - (10 ^ 300) \<le> auditScore d \<and> - (10 ^ 300) \<le> accountAgeDays d"

text \<open>
  The invariants of an attestation in the data model: eight integer sub-scores within
  their intervals and a trust score that is their sum.
\<close>

definition wf_attestation :: "TrustAttestation \<Rightarrow> bool" where
  "wf_attestation a \<longleftrightarrow>
     platformActivity a \<in> \<int> \<and> 0 \<le> platformActivity a \<and> platformActivity a \<le> 150
     \<and> skillVerifications a \<in> \<int> \<and> 0 \<le> skillVerifications a \<and> skillVerifications a \<le> 150
     \<and> endorsements a \<in> \<int> \<and> 0 \<le> endorsements a \<and> endorsements a \<le> 150
     \<and> reviews a \<in> \<int> \<and> 0 \<le> reviews a \<and> reviews a \<le> 150
     \<and> deploymentMetrics a \<in> \<int> \<and> 0 \<le> deploymentMetrics a \<and> deploymentMetrics a \<le> 150
     \<and> onchainReputation a \<in> \<int> \<and> 0 \<le> onchainReputation a \<and> onchainReputation a \<le> 100
     \<and> securityAudit a \<in> \<int> \<and> 0 \<le> securityAudit a \<and> securityAudit a \<le> 100
     \<and> accountAge a \<in> \<int> \<and> 0 \<le> accountAge a \<and> accountAge a \<le> 50
     \<and> trustScore a =
         platformActivity a + skillVerifications a + endorsements a + reviews a
         + deploymentMetrics a + onchainReputation a + securityAudit a + accountAge a"

section \<open>Concrete inputs\<close>

text \<open>
  \<open>optimus_will\<close> is the first agent of the demo script (its numbers as written there),
  with the last activity at time 0; \<open>idle_agent\<close> has every metric at zero.
  \<open>two_months\<close> is 60 days in milliseconds.
\<close>

definition idle_agent :: AgentPlatformData where
  "idle_agent =
     \<lparr> agentId = ''idle'', agentName = ''Idle'', solanaWallet = ''11111111111111111111111111111111'',
       denMessages = 0, dmsSent = 0, promptResponses = 0, verifiedSkills = 0, totalSkills = 0,
       endorsementsReceived = 0, endorserAvgTrust = 0, reviewCount = 0, avgReviewScore = 0,
       uptimePercent = 0, responseQuality = 0, walletAge = 0, txCount = 0,
       securityAuditPassed = False, auditScore = 0, accountAgeDays = 0,
       verificationTier = UNVERIFIED, lastActivityAt = 0 \<rparr>"

definition optimus_will :: AgentPlatformData where
  "optimus_will =
     \<lparr> agentId = ''optimus-will'', agentName = ''OptimusWill'',
       solanaWallet = ''FxfNUY8kahJsnWwKnUJv4r8feJNqvLbvVenQCqGHnjyh'',
       denMessages = 150, dmsSent = 80, promptResponses = 12, verifiedSkills = 6, totalSkills = 6,
       endorsementsReceived = 5, endorserAvgTrust = 600, reviewCount = 3, avgReviewScore = 9 / 2,
       uptimePercent = 99, responseQuality = 90, walletAge = 30, txCount = 50,
       securityAuditPassed = False, auditScore = 0, accountAgeDays = 15,
       verificationTier = VERIFIED, lastActivityAt = 0 \<rparr>"

definition two_months :: real where "two_months = 5184000000"

definition sample_attestation :: TrustAttestation where
  "sample_attestation =
     \<lparr> att_agentId = ''agent-a'', att_agentName = ''Agent A'', att_solanaWallet = ''wallet-a'',
       trustScore = 500, platformActivity = 50, skillVerifications = 130, endorsements = 50,
       reviews = 50, deploymentMetrics = 50, onchainReputation = 100, securityAudit = 50,
       accountAge = 20, att_verificationTier = VERIFIED, attestedAt = 0,
       attestedBy = ''moltbotden-oracle'', version = 1, att_lastActivityAt = 0, decayRate = 5 \<rparr>"

definition other_attestation :: TrustAttestation where
  "other_attestation =
     \<lparr> att_agentId = ''agent-b'', att_agentName = ''Agent B'', att_solanaWallet = ''wallet-b'',
       trustScore = 500, platformActivity = 50, skillVerifications = 150, endorsements = 50,
       reviews = 50, deploymentMetrics = 50, onchainReputation = 60, securityAudit = 40,
       accountAge = 50, att_verificationTier = ENTERPRISE, attestedAt = 77,
       attestedBy = ''someone-else'', version = 3, att_lastActivityAt = 0, decayRate = 9 \<rparr>"

definition over_range_attestation :: TrustAttestation where
  "over_range_attestation = sample_attestation \<lparr> trustScore := 2000 \<rparr>"

text \<open>
  Further inputs, each a copy of one of the two agents above with a few fields changed:
  an agent at the activity ceiling that has been inactive since time 0, an agent with a
  negative message count, an agent whose ratios and percentages exceed their scales, an
  agent with a fractional audit score, an agent with no skills listed, and an agent whose
  audit did not pass.
\<close>

definition stale_agent :: AgentPlatformData where
  "stale_agent = idle_agent \<lparr> denMessages := 100, dmsSent := 50, promptResponses := 10 \<rparr>"

definition negative_messages_agent :: AgentPlatformData where
  "negative_messages_agent = idle_agent \<lparr> denMessages := - 100 \<rparr>"

definition out_of_range_agent :: AgentPlatformData where
  "out_of_range_agent =
     optimus_will \<lparr> endorserAvgTrust := 2000, avgReviewScore := 9, uptimePercent := 250,
                    securityAuditPassed := True, auditScore := 120 \<rparr>"

definition fractional_audit_agent :: AgentPlatformData where
  "fractional_audit_agent = idle_agent \<lparr> securityAuditPassed := True, auditScore := 111 / 2 \<rparr>"

definition no_skills_agent :: AgentPlatformData where
  "no_skills_agent = optimus_will \<lparr> totalSkills := 0, verifiedSkills := 7 \<rparr>"

definition failed_audit_agent :: AgentPlatformData where
  "failed_audit_agent = optimus_will \<lparr> securityAuditPassed := False, auditScore := 80 \<rparr>"


definition skills_m1_of_8 :: AgentPlatformData where
  "skills_m1_of_8 = optimus_will \<lparr> verifiedSkills := - 1, totalSkills := 8 \<rparr>"

definition skills_m11_of_40 :: AgentPlatformData where
  "skills_m11_of_40 = optimus_will \<lparr> verifiedSkills := - 11, totalSkills := 40 \<rparr>"

definition skills_1_of_3 :: AgentPlatformData where
  "skills_1_of_3 = optimus_will \<lparr> verifiedSkills := 1, totalSkills := 3 \<rparr>"

definition skills_1_of_8 :: AgentPlatformData where
  "skills_1_of_8 = optimus_will \<lparr> verifiedSkills := 1, totalSkills := 8 \<rparr>"


section \<open>Rounding to binary64\<close>

text \<open>
  The rounding keeps the sign, respects every integer bound on a number below 2 to the
  power 53 in magnitude, and leaves such integers unchanged. The last two lemmas compute \<open>fl\<close> at a
  given number from the binade it lies in.
\<close>

lemma round_even_ge_floor: "\<lfloor>q\<rfloor> \<le> round_even q"
  by (simp add: round_even_def Let_def)

lemma round_even_le_ceiling: "round_even q \<le> \<lceil>q\<rceil>"
proof -
  have "\<lfloor>q\<rfloor> + 1 \<le> \<lceil>q\<rceil>" if "q \<noteq> of_int \<lfloor>q\<rfloor>"
    using that by (metis ceiling_altdef of_int_floor_le order_refl le_less)
  moreover have "\<lfloor>q\<rfloor> \<le> \<lceil>q\<rceil>" by (rule floor_le_ceiling)
  ultimately show ?thesis
    by (auto simp: round_even_def Let_def)
qed

lemma round_even_of_int: "round_even (of_int k) = k"
  by (simp add: round_even_def)

lemma round_even_le_int: "q \<le> of_int k \<Longrightarrow> round_even q \<le> k"
  using round_even_le_ceiling [of q] by (simp add: ceiling_le_iff order_trans [where y = "\<lceil>q\<rceil>"] ceiling_le)

lemma round_even_ge_int: "of_int k \<le> q \<Longrightarrow> k \<le> round_even q"
  using round_even_ge_floor [of q] by (simp add: le_floor_iff order_trans [where y = "\<lfloor>q\<rfloor>"])

lemma fl_ulp_pos: "0 < fl_ulp x"
  by (simp add: fl_ulp_def)

lemma fl_nonneg: "0 \<le> x \<Longrightarrow> 0 \<le> fl x"
  using round_even_ge_int [of 0 "x / fl_ulp x"] fl_ulp_pos [of x]
  by (simp add: fl_def)

lemma fl_nonpos: "x \<le> 0 \<Longrightarrow> fl x \<le> 0"
  using round_even_le_int [of "x / fl_ulp x" 0] fl_ulp_pos [of x]
  by (simp add: fl_def mult_le_0_iff divide_le_0_iff)

lemma fl_exp_eq:
  assumes "2 powr of_int e \<le> \<bar>x\<bar>" "\<bar>x\<bar> < 2 powr of_int (e + 1)" "- 1022 \<le> e"
  shows "fl_exp x = e"
proof -
  have pos: "0 < \<bar>x\<bar>" using assms(1) by (smt (verit) powr_gt_zero)
  have "of_int e \<le> log 2 \<bar>x\<bar>" using assms(1) pos by (simp add: le_log_iff)
  moreover have "log 2 \<bar>x\<bar> < of_int e + 1" using assms(2) pos by (simp add: log_less_iff)
  ultimately have "\<lfloor>log 2 \<bar>x\<bar>\<rfloor> = e" by (simp add: floor_eq_iff)
  then show ?thesis using assms(3) by (simp add: fl_exp_def)
qed

lemma fl_exp_le_52:
  assumes "x \<noteq> 0" "\<bar>x\<bar> < 2 ^ 53"
  shows "fl_exp x \<le> 52"
proof -
  have "\<bar>x\<bar> < 2 powr 53" using assms(2) by simp
  then have "log 2 \<bar>x\<bar> < 53" using assms(1) by (simp add: log_less_iff)
  then have "\<lfloor>log 2 \<bar>x\<bar>\<rfloor> < 53" by (simp add: floor_less_iff)
  then show ?thesis by (simp add: fl_exp_def)
qed

lemma fl_ulp_inverse_nat:
  assumes "fl_exp x \<le> 52"
  shows "fl_ulp x = 1 / 2 ^ nat (52 - fl_exp x)"
proof -
  have "fl_exp x - 52 = - int (nat (52 - fl_exp x))" using assms by simp
  then have "fl_ulp x = 2 powr (- real (nat (52 - fl_exp x)))"
    unfolding fl_ulp_def by simp
  also have "\<dots> = 1 / 2 ^ nat (52 - fl_exp x)"
    by (simp add: powr_minus powr_realpow inverse_eq_divide)
  finally show ?thesis .
qed

lemma fl_le_int:
  assumes "\<bar>x\<bar> < 2 ^ 53" "x \<le> of_int b"
  shows "fl x \<le> of_int b"
proof (cases "x = 0")
  case True
  then show ?thesis using assms by (simp add: fl_def)
next
  case False
  define n where "n = nat (52 - fl_exp x)"
  have u: "fl_ulp x = 1 / 2 ^ n"
    unfolding n_def by (rule fl_ulp_inverse_nat [OF fl_exp_le_52 [OF False assms(1)]])
  have "x / fl_ulp x \<le> of_int (b * 2 ^ n)"
    using assms(2) by (simp add: u)
  then have "round_even (x / fl_ulp x) \<le> b * 2 ^ n" by (rule round_even_le_int)
  then have "real_of_int (round_even (x / fl_ulp x)) \<le> real_of_int (b * 2 ^ n)"
    by (simp only: of_int_le_iff)
  then have "real_of_int (round_even (x / fl_ulp x)) / 2 ^ n \<le> of_int b"
    by (simp add: divide_le_eq)
  then show ?thesis using False by (simp add: fl_def u)
qed

lemma fl_ge_int:
  assumes "\<bar>x\<bar> < 2 ^ 53" "of_int b \<le> x"
  shows "of_int b \<le> fl x"
proof (cases "x = 0")
  case True
  then show ?thesis using assms by (simp add: fl_def)
next
  case False
  define n where "n = nat (52 - fl_exp x)"
  have u: "fl_ulp x = 1 / 2 ^ n"
    unfolding n_def by (rule fl_ulp_inverse_nat [OF fl_exp_le_52 [OF False assms(1)]])
  have "of_int (b * 2 ^ n) \<le> x / fl_ulp x"
    using assms(2) by (simp add: u)
  then have "b * 2 ^ n \<le> round_even (x / fl_ulp x)" by (rule round_even_ge_int)
  then have "real_of_int (b * 2 ^ n) \<le> real_of_int (round_even (x / fl_ulp x))"
    by (simp only: of_int_le_iff)
  then have "of_int b \<le> real_of_int (round_even (x / fl_ulp x)) / 2 ^ n"
    by (simp add: le_divide_eq)
  then show ?thesis using False by (simp add: fl_def u)
qed

lemma fl_of_int: "\<bar>real_of_int b\<bar> < 2 ^ 53 \<Longrightarrow> fl (of_int b) = of_int b"
  using fl_le_int [of "of_int b" b] fl_ge_int [of "of_int b" b] by simp

lemma fl_Ints: "x \<in> \<int> \<Longrightarrow> \<bar>x\<bar> < 2 ^ 53 \<Longrightarrow> fl x = x"
  by (auto simp: Ints_def fl_of_int)

lemma fl_eval_ge1:
  assumes "2 ^ k \<le> \<bar>x\<bar>" "\<bar>x\<bar> < 2 ^ (k + 1)" "k \<le> 52"
  shows "fl x = of_int (round_even (x * 2 ^ (52 - k))) / 2 ^ (52 - k)"
proof -
  have x0: "x \<noteq> 0" using assms(1) by (smt (verit) zero_less_power)
  have "2 powr of_int (int k) \<le> \<bar>x\<bar>" "\<bar>x\<bar> < 2 powr of_int (int k + 1)"
    using assms(1,2) by (simp_all add: powr_realpow add.commute powr_add)
  then have e: "fl_exp x = int k" by (intro fl_exp_eq) simp_all
  have "fl_ulp x = 1 / 2 ^ nat (52 - fl_exp x)"
    by (rule fl_ulp_inverse_nat) (simp add: e assms(3))
  then have u: "fl_ulp x = 1 / 2 ^ (52 - k)"
    using assms(3) by (simp add: e nat_diff_distrib')
  show ?thesis using x0 by (simp add: fl_def u)
qed

lemma fl_eval_lt1:
  assumes "1 \<le> \<bar>x\<bar> * 2 ^ k" "\<bar>x\<bar> * 2 ^ k < 2" "k \<le> 1022"
  shows "fl x = of_int (round_even (x * 2 ^ (52 + k))) / 2 ^ (52 + k)"
proof -
  have x0: "x \<noteq> 0" using assms(1) by auto
  have p: "(2::real) powr of_int (- int k) = 1 / 2 ^ k"
    by (simp add: powr_minus powr_realpow inverse_eq_divide)
  have "(2::real) powr (1 + (- real k)) = 2 powr 1 * 2 powr (- real k)"
    by (rule powr_add)
  then have p1: "(2::real) powr of_int (- int k + 1) = 2 / 2 ^ k"
    by (simp add: powr_minus powr_realpow inverse_eq_divide)
  have "2 powr of_int (- int k) \<le> \<bar>x\<bar>" "\<bar>x\<bar> < 2 powr of_int (- int k + 1)"
    unfolding p p1 using assms(1,2) by (simp_all add: field_simps)
  then have e: "fl_exp x = - int k" using assms(3) by (intro fl_exp_eq) simp_all
  have "fl_ulp x = 1 / 2 ^ nat (52 - fl_exp x)"
    by (rule fl_ulp_inverse_nat) (simp add: e)
  then have u: "fl_ulp x = 1 / 2 ^ (52 + k)"
    by (simp add: e nat_add_distrib)
  show ?thesis using x0 by (simp add: fl_def u)
qed

lemma fl_zero: "fl 0 = 0"
  by (simp add: fl_def)

lemma fadd_Ints: "a + b \<in> \<int> \<Longrightarrow> \<bar>a + b\<bar> < 2 ^ 53 \<Longrightarrow> fadd a b = a + b"
  by (simp add: fadd_def fl_Ints)

lemma fmul_Ints: "a * b \<in> \<int> \<Longrightarrow> \<bar>a * b\<bar> < 2 ^ 53 \<Longrightarrow> fmul a b = a * b"
  by (simp add: fmul_def fl_Ints)

lemma fdiv_Ints: "a / b \<in> \<int> \<Longrightarrow> \<bar>a / b\<bar> < 2 ^ 53 \<Longrightarrow> fdiv a b = a / b"
  by (simp add: fdiv_def fl_Ints)

lemmas f_Ints = fadd_Ints fmul_Ints fdiv_Ints

lemma fadd_nonneg: "0 \<le> a \<Longrightarrow> 0 \<le> b \<Longrightarrow> 0 \<le> fadd a b"
  by (simp add: fadd_def fl_nonneg)

lemma fmul_nonneg: "0 \<le> a \<Longrightarrow> 0 \<le> b \<Longrightarrow> 0 \<le> fmul a b"
  by (simp add: fmul_def fl_nonneg)

lemma fdiv_nonneg: "0 \<le> a \<Longrightarrow> 0 \<le> b \<Longrightarrow> 0 \<le> fdiv a b"
  by (simp add: fdiv_def fl_nonneg)


section \<open>Rounding to an integer, and decay\<close>

text \<open>
  Facts about \<open>Math.round\<close>, the decay factor and \<open>applyDecay\<close>, and the fields of an
  issued attestation.
\<close>

lemma Math_round_mono: "x \<le> y \<Longrightarrow> Math_round x \<le> Math_round y"
  unfolding Math_round_def by (simp add: floor_mono)

lemma Math_round_nonneg: "0 \<le> x \<Longrightarrow> 0 \<le> Math_round x"
  unfolding Math_round_def by simp

lemma Math_round_le_int: "x \<le> of_int n \<Longrightarrow> Math_round x \<le> of_int n"
  unfolding Math_round_def by (simp add: floor_le_iff)

lemma Math_round_le_Ints: "c \<in> \<int> \<Longrightarrow> x \<le> c \<Longrightarrow> Math_round x \<le> c"
  by (auto simp: Ints_def Math_round_le_int)

lemma Math_round_Ints: "Math_round x \<in> \<int>"
  unfolding Math_round_def by simp

lemma decayFactor_pos: "0 < Math_pow (1 - DECAY_RATE_MONTHLY) m"
  unfolding Math_pow_def DECAY_RATE_MONTHLY_def by simp

lemma decayFactor_le_one: "0 \<le> m \<Longrightarrow> Math_pow (1 - DECAY_RATE_MONTHLY) m \<le> 1"
  unfolding Math_pow_def DECAY_RATE_MONTHLY_def
  using powr_mono' [of 0 m "95 / 100"] by simp

lemma decayFactor_antimono:
  "m1 \<le> m2 \<Longrightarrow> Math_pow (1 - DECAY_RATE_MONTHLY) m2 \<le> Math_pow (1 - DECAY_RATE_MONTHLY) m1"
  unfolding Math_pow_def DECAY_RATE_MONTHLY_def
  using powr_mono' [of m1 m2 "95 / 100"] by simp

lemma applyDecay_nonneg:
  assumes "0 \<le> s" shows "0 \<le> applyDecay s l n"
proof -
  have "0 \<le> s * Math_pow (1 - DECAY_RATE_MONTHLY) m" for m
    using assms decayFactor_pos [of m] by (simp add: mult_nonneg_nonneg less_imp_le)
  then show ?thesis using assms by (simp add: applyDecay_def Let_def Math_round_nonneg)
qed

lemma scaled_le:
  assumes "0 < f" "f \<le> 1" "s \<le> c" "(0::real) \<le> c" shows "s * f \<le> c"
proof (cases "0 \<le> s")
  case True
  then have "s * f \<le> s * 1" using assms by (intro mult_left_mono) auto
  then show ?thesis using assms by simp
next
  case False
  then have "s * f \<le> 0" using assms by (simp add: mult_le_0_iff)
  then show ?thesis using assms by simp
qed

lemma applyDecay_le:
  assumes "c \<in> \<int>" "0 \<le> c" "s \<le> c" shows "applyDecay s l n \<le> c"
proof (cases "(n - l) / (30 * 24 * 60 * 60 * 1000) \<le> 0")
  case True
  then show ?thesis using assms by (simp add: applyDecay_def)
next
  case False
  then have m: "0 \<le> (n - l) / (30 * 24 * 60 * 60 * 1000)" by simp
  have "s * Math_pow (1 - DECAY_RATE_MONTHLY) ((n - l) / (30 * 24 * 60 * 60 * 1000)) \<le> c"
    using decayFactor_pos decayFactor_le_one [OF m] assms by (intro scaled_le) auto
  then show ?thesis using False assms(1) by (simp add: applyDecay_def Math_round_le_Ints)
qed


lemma decayed_keys:
  "decay_loop c l n DECAY_COMPONENTS c K_platformActivity = applyDecay (c K_platformActivity) l n"
  "decay_loop c l n DECAY_COMPONENTS c K_endorsements = applyDecay (c K_endorsements) l n"
  "decay_loop c l n DECAY_COMPONENTS c K_reviews = applyDecay (c K_reviews) l n"
  "decay_loop c l n DECAY_COMPONENTS c K_deploymentMetrics = applyDecay (c K_deploymentMetrics) l n"
  "decay_loop c l n DECAY_COMPONENTS c K_skillVerifications = c K_skillVerifications"
  "decay_loop c l n DECAY_COMPONENTS c K_onchainReputation = c K_onchainReputation"
  "decay_loop c l n DECAY_COMPONENTS c K_securityAudit = c K_securityAudit"
  "decay_loop c l n DECAY_COMPONENTS c K_accountAge = c K_accountAge"
  by (simp_all add: decay_loop_def DECAY_COMPONENTS_def)

lemma att_fields:
  "platformActivity (calculateTrustScore now d) = applyDecay (calcPlatformActivity d) (lastActivityAt d) now"
  "skillVerifications (calculateTrustScore now d) = calcSkillVerifications d"
  "endorsements (calculateTrustScore now d) = applyDecay (calcEndorsements d) (lastActivityAt d) now"
  "reviews (calculateTrustScore now d) = applyDecay (calcReviews d) (lastActivityAt d) now"
  "deploymentMetrics (calculateTrustScore now d) = applyDecay (calcDeploymentMetrics d) (lastActivityAt d) now"
  "onchainReputation (calculateTrustScore now d) = calcOnchainReputation d"
  "securityAudit (calculateTrustScore now d) = calcSecurityAudit d"
  "accountAge (calculateTrustScore now d) = calcAccountAge d"
  "att_lastActivityAt (calculateTrustScore now d) = lastActivityAt d"
  by (simp_all add: calculateTrustScore_def Let_def decayed_keys components_def)

lemma att_trustScore:
  "trustScore (calculateTrustScore now d) =
     fadd (fadd (fadd (fadd (fadd (fadd (fadd (fadd 0
       (applyDecay (calcPlatformActivity d) (lastActivityAt d) now))
       (calcSkillVerifications d))
       (applyDecay (calcEndorsements d) (lastActivityAt d) now))
       (applyDecay (calcReviews d) (lastActivityAt d) now))
       (applyDecay (calcDeploymentMetrics d) (lastActivityAt d) now))
       (calcOnchainReputation d)) (calcSecurityAudit d)) (calcAccountAge d)"
  by (simp add: calculateTrustScore_def Let_def decayed_keys components_def component_keys_def)

lemmas calc_defs = calcPlatformActivity_def calcSkillVerifications_def calcEndorsements_def
      calcReviews_def calcDeploymentMetrics_def calcOnchainReputation_def calcSecurityAudit_def
      calcAccountAge_def

lemma calc_upper:
  "calcPlatformActivity d \<le> 150"
  "calcSkillVerifications d \<le> 150"
  "calcEndorsements d \<le> 150"
  "calcReviews d \<le> 150"
  "calcDeploymentMetrics d \<le> 150"
  "calcOnchainReputation d \<le> 100"
  "calcSecurityAudit d \<le> 100"
  "calcAccountAge d \<le> 50"
  by (simp_all add: calc_defs Let_def)

lemma calc_lower:
  assumes "nonneg_input d"
  shows "0 \<le> calcPlatformActivity d"
    "0 \<le> calcSkillVerifications d"
    "0 \<le> calcEndorsements d"
    "0 \<le> calcReviews d"
    "0 \<le> calcDeploymentMetrics d"
    "0 \<le> calcOnchainReputation d"
    "0 \<le> calcSecurityAudit d"
    "0 \<le> calcAccountAge d"
  using assms
  by (simp_all add: nonneg_input_def calc_defs Let_def Math_round_nonneg
      fadd_nonneg fmul_nonneg fdiv_nonneg)



lemma applyDecay_le_self: "s \<in> \<int> \<Longrightarrow> 0 \<le> s \<Longrightarrow> applyDecay s l n \<le> s"
  by (rule applyDecay_le) simp_all

lemma applyDecay_antimono:
  assumes "0 \<le> s" "l < n1" "n1 \<le> n2"
  shows "applyDecay s l n2 \<le> applyDecay s l n1"
proof -
  let ?m1 = "(n1 - l) / (30 * 24 * 60 * 60 * 1000)"
  let ?m2 = "(n2 - l) / (30 * 24 * 60 * 60 * 1000)"
  have m: "0 < ?m1" "?m1 \<le> ?m2" using assms by (simp_all add: divide_right_mono)
  have "s * Math_pow (1 - DECAY_RATE_MONTHLY) ?m2 \<le> s * Math_pow (1 - DECAY_RATE_MONTHLY) ?m1"
    using decayFactor_antimono [OF m(2)] assms(1) by (rule mult_left_mono)
  then have "Math_round (s * Math_pow (1 - DECAY_RATE_MONTHLY) ?m2)
      \<le> Math_round (s * Math_pow (1 - DECAY_RATE_MONTHLY) ?m1)"
    by (rule Math_round_mono)
  moreover have "\<not> ?m1 \<le> 0" "\<not> ?m2 \<le> 0" using m by simp_all
  ultimately show ?thesis by (simp add: applyDecay_def Let_def)
qed

lemma currentScore_applyDecay:
  "currentScore (getCurrentScore now a) =
     trustScore a - (platformActivity a + endorsements a + reviews a + deploymentMetrics a)
     + applyDecay (platformActivity a + endorsements a + reviews a + deploymentMetrics a)
         (att_lastActivityAt a) now"
  by (simp add: getCurrentScore_def applyDecay_def Let_def)

section \<open>The sum of the sub-scores\<close>



section \<open>Values at the concrete inputs\<close>

text \<open>
  The binary64 operations that the scorer performs on the concrete inputs and whose
  result is not an integer, each computed from the binade of its exact result.
\<close>

lemma binary64_step_1:
  "fdiv 150 100 = 3 / 2"
  unfolding fdiv_def using fl_eval_ge1 [where k = 0 and x = "3 / 2"]
  by (simp add: round_even_def)

lemma binary64_step_2:
  "fdiv 80 50 = 3602879701896397 / 2251799813685248"
  unfolding fdiv_def using fl_eval_ge1 [where k = 0 and x = "8 / 5"]
  by (simp add: round_even_def)

lemma binary64_step_3:
  "fdiv 12 10 = 5404319552844595 / 4503599627370496"
  unfolding fdiv_def using fl_eval_ge1 [where k = 0 and x = "6 / 5"]
  by (simp add: round_even_def)

lemma binary64_step_4:
  "fdiv 6 10 = 5404319552844595 / 9007199254740992"
  unfolding fdiv_def using fl_eval_lt1 [where k = 1 and x = "3 / 5"]
  by (simp add: round_even_def)

lemma binary64_step_5:
  "fmul (5404319552844595 / 9007199254740992) 50 = 30"
  unfolding fmul_def using fl_eval_ge1 [where k = 4 and x = "135107988821114875 / 4503599627370496"]
  by (simp add: round_even_def)

lemma binary64_step_6:
  "fdiv 5 20 = 1 / 4"
  unfolding fdiv_def using fl_eval_lt1 [where k = 2 and x = "1 / 4"]
  by (simp add: round_even_def)

lemma binary64_step_7:
  "fmul (1 / 4) 75 = 75 / 4"
  unfolding fmul_def using fl_eval_ge1 [where k = 4 and x = "75 / 4"]
  by (simp add: round_even_def)

lemma binary64_step_8:
  "fdiv 600 1000 = 5404319552844595 / 9007199254740992"
  unfolding fdiv_def using fl_eval_lt1 [where k = 1 and x = "3 / 5"]
  by (simp add: round_even_def)

lemma binary64_step_9:
  "fmul (5404319552844595 / 9007199254740992) 75 = 45"
  unfolding fmul_def using fl_eval_ge1 [where k = 5 and x = "405323966463344625 / 9007199254740992"]
  by (simp add: round_even_def)

lemma binary64_step_10:
  "fadd (75 / 4) 45 = 255 / 4"
  unfolding fadd_def using fl_eval_ge1 [where k = 5 and x = "255 / 4"]
  by (simp add: round_even_def)

lemma binary64_step_11:
  "fdiv 3 15 = 3602879701896397 / 18014398509481984"
  unfolding fdiv_def using fl_eval_lt1 [where k = 3 and x = "1 / 5"]
  by (simp add: round_even_def)

lemma binary64_step_12:
  "fmul (3602879701896397 / 18014398509481984) 75 = 15"
  unfolding fmul_def using fl_eval_ge1 [where k = 3 and x = "270215977642229775 / 18014398509481984"]
  by (simp add: round_even_def)

lemma binary64_step_13:
  "fdiv (9 / 2) 5 = 8106479329266893 / 9007199254740992"
  unfolding fdiv_def using fl_eval_lt1 [where k = 1 and x = "9 / 10"]
  by (simp add: round_even_def)

lemma binary64_step_14:
  "fmul (8106479329266893 / 9007199254740992) 75 = 135 / 2"
  unfolding fmul_def using fl_eval_ge1 [where k = 6 and x = "607985949695016975 / 9007199254740992"]
  by (simp add: round_even_def)

lemma binary64_step_15:
  "fadd 15 (135 / 2) = 165 / 2"
  unfolding fadd_def using fl_eval_ge1 [where k = 6 and x = "165 / 2"]
  by (simp add: round_even_def)

lemma binary64_step_16:
  "fdiv 99 100 = 4458563631096791 / 4503599627370496"
  unfolding fdiv_def using fl_eval_lt1 [where k = 1 and x = "99 / 100"]
  by (simp add: round_even_def)

lemma binary64_step_17:
  "fmul (4458563631096791 / 4503599627370496) 75 = 297 / 4"
  unfolding fmul_def using fl_eval_ge1 [where k = 6 and x = "334392272332259325 / 4503599627370496"]
  by (simp add: round_even_def)

lemma binary64_step_18:
  "fdiv 90 100 = 8106479329266893 / 9007199254740992"
  unfolding fdiv_def using fl_eval_lt1 [where k = 1 and x = "9 / 10"]
  by (simp add: round_even_def)

lemma binary64_step_19:
  "fadd (297 / 4) (135 / 2) = 567 / 4"
  unfolding fadd_def using fl_eval_ge1 [where k = 7 and x = "567 / 4"]
  by (simp add: round_even_def)

lemma binary64_step_20:
  "fdiv 30 365 = 740317746965013 / 9007199254740992"
  unfolding fdiv_def using fl_eval_lt1 [where k = 4 and x = "6 / 73"]
  by (simp add: round_even_def)

lemma binary64_step_21:
  "fmul (740317746965013 / 9007199254740992) 50 = 4626985918531331 / 1125899906842624"
  unfolding fmul_def using fl_eval_ge1 [where k = 2 and x = "18507943674125325 / 4503599627370496"]
  by (simp add: round_even_def)

lemma binary64_step_22:
  "fdiv 50 100 = 1 / 2"
  unfolding fdiv_def using fl_eval_lt1 [where k = 1 and x = "1 / 2"]
  by (simp add: round_even_def)

lemma binary64_step_23:
  "fadd (4626985918531331 / 1125899906842624) 25 = 8193620897399233 / 281474976710656"
  unfolding fadd_def using fl_eval_ge1 [where k = 4 and x = "32774483589596931 / 1125899906842624"]
  by (simp add: round_even_def)

lemma binary64_step_24:
  "fdiv 15 180 = 6004799503160661 / 72057594037927936"
  unfolding fdiv_def using fl_eval_lt1 [where k = 4 and x = "1 / 12"]
  by (simp add: round_even_def)

lemma binary64_step_25:
  "fmul (6004799503160661 / 72057594037927936) 50 = 2345624805922133 / 562949953421312"
  unfolding fmul_def using fl_eval_ge1 [where k = 2 and x = "150119987579016525 / 36028797018963968"]
  by (simp add: round_even_def)

lemma binary64_step_26:
  "fadd 598 (3602879701896397 / 36028797018963968) = 5260943236582605 / 8796093022208"
  unfolding fadd_def using fl_eval_ge1 [where k = 9 and x = "21548823497042349261 / 36028797018963968"]
  by (simp add: round_even_def)

lemma binary64_step_27:
  "fadd (5260943236582605 / 8796093022208) 4 = 5296127608671437 / 8796093022208"
  unfolding fadd_def using fl_eval_ge1 [where k = 9 and x = "5296127608671437 / 8796093022208"]
  by (simp add: round_even_def)

lemma binary64_step_28:
  "fadd 0 (111 / 2) = 111 / 2"
  unfolding fadd_def using fl_eval_ge1 [where k = 5 and x = "111 / 2"]
  by (simp add: round_even_def)

lemma binary64_step_29:
  "fadd (111 / 2) 0 = 111 / 2"
  unfolding fadd_def using fl_eval_ge1 [where k = 5 and x = "111 / 2"]
  by (simp add: round_even_def)

lemma binary64_step_30:
  "fdiv (- 1) 8 = - (1 / 8)"
  unfolding fdiv_def using fl_eval_lt1 [where k = 3 and x = "- (1 / 8)"]
  by (simp add: round_even_def)

lemma binary64_step_31:
  "fdiv (- 1) 10 = - (3602879701896397 / 36028797018963968)"
  unfolding fdiv_def using fl_eval_lt1 [where k = 4 and x = "- (1 / 10)"]
  by (simp add: round_even_def)

lemma binary64_step_32:
  "fmul (- (3602879701896397 / 36028797018963968)) 50 = - 5"
  unfolding fmul_def using fl_eval_ge1 [where k = 2 and x = "- (90071992547409925 / 18014398509481984)"]
  by (simp add: round_even_def)

lemma binary64_step_33:
  "fmul (- (1 / 8)) 100 = - (25 / 2)"
  unfolding fmul_def using fl_eval_ge1 [where k = 3 and x = "- (25 / 2)"]
  by (simp add: round_even_def)

lemma binary64_step_34:
  "fadd (- (25 / 2)) (- 5) = - (35 / 2)"
  unfolding fadd_def using fl_eval_ge1 [where k = 4 and x = "- (35 / 2)"]
  by (simp add: round_even_def)

lemma binary64_step_35:
  "fdiv (- 11) 40 = - (2476979795053773 / 9007199254740992)"
  unfolding fdiv_def using fl_eval_lt1 [where k = 2 and x = "- (11 / 40)"]
  by (simp add: round_even_def)

lemma binary64_step_36:
  "fdiv (- 11) 10 = - (2476979795053773 / 2251799813685248)"
  unfolding fdiv_def using fl_eval_ge1 [where k = 0 and x = "- (11 / 10)"]
  by (simp add: round_even_def)

lemma binary64_step_37:
  "fmul (- (2476979795053773 / 2251799813685248)) 50 = - (7740561859543041 / 140737488355328)"
  unfolding fmul_def using fl_eval_ge1 [where k = 5 and x = "- (61924494876344325 / 1125899906842624)"]
  by (simp add: round_even_def)

lemma binary64_step_38:
  "fmul (- (2476979795053773 / 9007199254740992)) 100 = - (7740561859543041 / 281474976710656)"
  unfolding fmul_def using fl_eval_ge1 [where k = 4 and x = "- (61924494876344325 / 2251799813685248)"]
  by (simp add: round_even_def)

lemma binary64_step_39:
  "fadd (- (7740561859543041 / 281474976710656)) (- (7740561859543041 / 140737488355328)) = - (5805421394657281 / 70368744177664)"
  unfolding fadd_def using fl_eval_ge1 [where k = 6 and x = "- (23221685578629123 / 281474976710656)"]
  by (simp add: round_even_def)

lemma binary64_step_40:
  "fdiv 1 3 = 6004799503160661 / 18014398509481984"
  unfolding fdiv_def using fl_eval_lt1 [where k = 2 and x = "1 / 3"]
  by (simp add: round_even_def)

lemma binary64_step_41:
  "fdiv 1 10 = 3602879701896397 / 36028797018963968"
  unfolding fdiv_def using fl_eval_lt1 [where k = 4 and x = "1 / 10"]
  by (simp add: round_even_def)

lemma binary64_step_42:
  "fmul (3602879701896397 / 36028797018963968) 50 = 5"
  unfolding fmul_def using fl_eval_ge1 [where k = 2 and x = "90071992547409925 / 18014398509481984"]
  by (simp add: round_even_def)

lemma binary64_step_43:
  "fmul (6004799503160661 / 18014398509481984) 100 = 2345624805922133 / 70368744177664"
  unfolding fmul_def using fl_eval_ge1 [where k = 5 and x = "150119987579016525 / 4503599627370496"]
  by (simp add: round_even_def)

lemma binary64_step_44:
  "fadd (2345624805922133 / 70368744177664) 5 = 2697468526810453 / 70368744177664"
  unfolding fadd_def using fl_eval_ge1 [where k = 5 and x = "2697468526810453 / 70368744177664"]
  by (simp add: round_even_def)

lemma binary64_step_45:
  "fdiv 1 8 = 1 / 8"
  unfolding fdiv_def using fl_eval_lt1 [where k = 3 and x = "1 / 8"]
  by (simp add: round_even_def)

lemma binary64_step_46:
  "fmul (1 / 8) 100 = 25 / 2"
  unfolding fmul_def using fl_eval_ge1 [where k = 3 and x = "25 / 2"]
  by (simp add: round_even_def)

lemma binary64_step_47:
  "fadd (25 / 2) 5 = 35 / 2"
  unfolding fadd_def using fl_eval_ge1 [where k = 4 and x = "35 / 2"]
  by (simp add: round_even_def)

lemma binary64_step_48:
  "fdiv 820 1000 = 7385903388887613 / 9007199254740992"
  unfolding fdiv_def using fl_eval_lt1 [where k = 1 and x = "41 / 50"]
  by (simp add: round_even_def)

lemma binary64_step_49:
  "fmul (7385903388887613 / 9007199254740992) 75 = 8655355533852671 / 140737488355328"
  unfolding fmul_def using fl_eval_ge1 [where k = 5 and x = "553942754166570975 / 9007199254740992"]
  by (simp add: round_even_def)

lemma binary64_step_50:
  "fadd 0 (8655355533852671 / 140737488355328) = 8655355533852671 / 140737488355328"
  unfolding fadd_def using fl_eval_ge1 [where k = 5 and x = "8655355533852671 / 140737488355328"]
  by (simp add: round_even_def)

lemma binary64_step_51:
  "fdiv 11 15 = 6605279453476727 / 9007199254740992"
  unfolding fdiv_def using fl_eval_lt1 [where k = 1 and x = "11 / 15"]
  by (simp add: round_even_def)

lemma binary64_step_52:
  "fmul (6605279453476727 / 9007199254740992) 75 = 7740561859543039 / 140737488355328"
  unfolding fmul_def using fl_eval_ge1 [where k = 5 and x = "495395959010754525 / 9007199254740992"]
  by (simp add: round_even_def)

lemma binary64_step_53:
  "fdiv (1 / 2) 5 = 3602879701896397 / 36028797018963968"
  unfolding fdiv_def using fl_eval_lt1 [where k = 4 and x = "1 / 10"]
  by (simp add: round_even_def)

lemma binary64_step_54:
  "fmul (3602879701896397 / 36028797018963968) 75 = 15 / 2"
  unfolding fmul_def using fl_eval_ge1 [where k = 2 and x = "270215977642229775 / 36028797018963968"]
  by (simp add: round_even_def)

lemma binary64_step_55:
  "fadd (7740561859543039 / 140737488355328) (15 / 2) = 8796093022207999 / 140737488355328"
  unfolding fadd_def using fl_eval_ge1 [where k = 5 and x = "8796093022207999 / 140737488355328"]
  by (simp add: round_even_def)

lemma binary64_step_56:
  "fdiv 82 100 = 7385903388887613 / 9007199254740992"
  unfolding fdiv_def using fl_eval_lt1 [where k = 1 and x = "41 / 50"]
  by (simp add: round_even_def)

lemma binary64_step_57:
  "fdiv 29 100 = 5224175567749775 / 18014398509481984"
  unfolding fdiv_def using fl_eval_lt1 [where k = 2 and x = "29 / 100"]
  by (simp add: round_even_def)

lemma binary64_step_58:
  "fmul (5224175567749775 / 18014398509481984) 50 = 8162774324609023 / 562949953421312"
  unfolding fmul_def using fl_eval_ge1 [where k = 3 and x = "130604389193744375 / 9007199254740992"]
  by (simp add: round_even_def)

lemma binary64_step_59:
  "fadd 0 (8162774324609023 / 562949953421312) = 8162774324609023 / 562949953421312"
  unfolding fadd_def using fl_eval_ge1 [where k = 3 and x = "8162774324609023 / 562949953421312"]
  by (simp add: round_even_def)

lemmas binary64_steps =
  binary64_step_1 binary64_step_2 binary64_step_3 binary64_step_4 binary64_step_5
  binary64_step_6 binary64_step_7 binary64_step_8 binary64_step_9 binary64_step_10
  binary64_step_11 binary64_step_12 binary64_step_13 binary64_step_14 binary64_step_15
  binary64_step_16 binary64_step_17 binary64_step_18 binary64_step_19 binary64_step_20
  binary64_step_21 binary64_step_22 binary64_step_23 binary64_step_24 binary64_step_25
  binary64_step_26 binary64_step_27 binary64_step_28 binary64_step_29 binary64_step_30
  binary64_step_31 binary64_step_32 binary64_step_33 binary64_step_34 binary64_step_35
  binary64_step_36 binary64_step_37 binary64_step_38 binary64_step_39 binary64_step_40
  binary64_step_41 binary64_step_42 binary64_step_43 binary64_step_44 binary64_step_45
  binary64_step_46 binary64_step_47 binary64_step_48 binary64_step_49 binary64_step_50
  binary64_step_51 binary64_step_52 binary64_step_53 binary64_step_54 binary64_step_55
  binary64_step_56 binary64_step_57 binary64_step_58 binary64_step_59

lemma applyDecay_150: "applyDecay 150 0 two_months = 135"
  by (simp add: applyDecay_def two_months_def Math_pow_def DECAY_RATE_MONTHLY_def
      Math_round_def power2_eq_square)

lemma applyDecay_200:
  "applyDecay 200 0 two_months = 181"
  "applyDecay 200 0 (two_months / 2) = 190"
  by (simp_all add: applyDecay_def two_months_def Math_pow_def DECAY_RATE_MONTHLY_def
      Math_round_def power2_eq_square)





lemma stale_agent_components:
  "calcPlatformActivity stale_agent = 150"
  "calcSkillVerifications stale_agent = 0"
  "calcEndorsements stale_agent = 0"
  "calcReviews stale_agent = 0"
  "calcDeploymentMetrics stale_agent = 0"
  "calcOnchainReputation stale_agent = 0"
  "calcSecurityAudit stale_agent = 0"
  "calcAccountAge stale_agent = 0"
  by (simp_all add: calc_defs stale_agent_def idle_agent_def Math_round_def f_Ints)

lemma skill_examples:
  "calcSkillVerifications skills_m1_of_8 = - 17"
  "calcSkillVerifications skills_m11_of_40 = - 83"
  "calcSkillVerifications skills_1_of_3 = 38"
  "calcSkillVerifications skills_1_of_8 = 18"
  by (simp_all add: calcSkillVerifications_def skills_m1_of_8_def skills_m11_of_40_def
      skills_1_of_3_def skills_1_of_8_def optimus_will_def Math_round_def binary64_steps f_Ints)

text \<open>
  Four inputs within the documented ranges where the exact value is a half-integer and
  the binary64 value lies just below it, so that the sub-score is one less than exact
  arithmetic would give: 0.82 * 75 is computed as 61.49999999999999, 0.29 * 50 as
  14.499999999999998, and (11 / 15) * 75 as 54.99999999999999, which with 7.5 gives
  62.49999999999999.
\<close>

lemma binary64_examples:
  "calcEndorsements (idle_agent \<lparr> endorserAvgTrust := 820 \<rparr>) = 61"
  "calcReviews (idle_agent \<lparr> reviewCount := 11, avgReviewScore := 1 / 2 \<rparr>) = 62"
  "calcDeploymentMetrics (idle_agent \<lparr> responseQuality := 82 \<rparr>) = 61"
  "calcOnchainReputation (idle_agent \<lparr> txCount := 29 \<rparr>) = 14"
  by (simp_all add: calc_defs idle_agent_def Math_round_def binary64_steps f_Ints)

section \<open>Bounds and the sum\<close>




text \<open>
  C4, as stated, fails: the caps bound a sub-score from above only. With a message count
  of -100 and every other metric zero, the platform-activity sub-score is -60, below its
  interval.
\<close>

theorem negative_input_counterexample:
  "platformActivity (calculateTrustScore 0 negative_messages_agent) = - 60
   \<and> platformActivity (calculateTrustScore 0 negative_messages_agent) < 0"
  by (simp add: att_fields calc_defs negative_messages_agent_def idle_agent_def
      applyDecay_def Math_round_def f_Ints)

text \<open>
  C4, amended. For every input whose raw metrics are finite numbers not below minus 10
  to the power 300, negative and out-of-range values included, and every time of
  issuance, the assembler returns an attestation (it is a total function with no error
  branch) whose sub-scores are each at most their ceiling; and when the raw metrics are
  non-negative, however far above their scales, each sub-score is also at least 0.
  Below that bound a product of the scorer can overflow to minus infinity, which the
  decay can turn into NaN.
\<close>

theorem computeAttestation_capped:
  fixes now :: real and d :: AgentPlatformData
  defines "a \<equiv> calculateTrustScore now d"
  assumes bounded: "bounded_below_input d"
  shows "(platformActivity a \<le> 150 \<and> skillVerifications a \<le> 150 \<and> endorsements a \<le> 150
          \<and> reviews a \<le> 150 \<and> deploymentMetrics a \<le> 150 \<and> onchainReputation a \<le> 100
          \<and> securityAudit a \<le> 100 \<and> accountAge a \<le> 50)
     \<and> (nonneg_input d \<longrightarrow>
          0 \<le> platformActivity a \<and> 0 \<le> skillVerifications a \<and> 0 \<le> endorsements a
          \<and> 0 \<le> reviews a \<and> 0 \<le> deploymentMetrics a \<and> 0 \<le> onchainReputation a
          \<and> 0 \<le> securityAudit a \<and> 0 \<le> accountAge a)"
proof -
  note hi = calc_upper [of d]
  have up: "platformActivity a \<le> 150 \<and> skillVerifications a \<le> 150 \<and> endorsements a \<le> 150
          \<and> reviews a \<le> 150 \<and> deploymentMetrics a \<le> 150 \<and> onchainReputation a \<le> 100
          \<and> securityAudit a \<le> 100 \<and> accountAge a \<le> 50"
    unfolding a_def att_fields using hi by (simp add: applyDecay_le)
  have lo: "0 \<le> platformActivity a \<and> 0 \<le> skillVerifications a \<and> 0 \<le> endorsements a
          \<and> 0 \<le> reviews a \<and> 0 \<le> deploymentMetrics a \<and> 0 \<le> onchainReputation a
          \<and> 0 \<le> securityAudit a \<and> 0 \<le> accountAge a" if "nonneg_input d"
    unfolding a_def att_fields using calc_lower [OF that] by (simp add: applyDecay_nonneg)
  show ?thesis using up lo by blast
qed

text \<open>
  C4 at an input with an endorser trust of 2000, a review score of 9, an uptime of 250
  percent and an audit score of 120.
\<close>

theorem computeAttestation_capped_witness:
  "bounded_below_input out_of_range_agent
   \<and> nonneg_input out_of_range_agent
   \<and> 1000 < endorserAvgTrust out_of_range_agent \<and> 100 < uptimePercent out_of_range_agent
   \<and> 100 < auditScore out_of_range_agent
   \<and> 0 \<le> endorsements (calculateTrustScore two_months out_of_range_agent)
   \<and> endorsements (calculateTrustScore two_months out_of_range_agent) \<le> 150
   \<and> 0 \<le> deploymentMetrics (calculateTrustScore two_months out_of_range_agent)
   \<and> deploymentMetrics (calculateTrustScore two_months out_of_range_agent) \<le> 150
   \<and> securityAudit (calculateTrustScore two_months out_of_range_agent) = 100"
proof -
  have b: "bounded_below_input out_of_range_agent"
    by (simp add: bounded_below_input_def out_of_range_agent_def optimus_will_def)
  have h: "nonneg_input out_of_range_agent"
    by (simp add: nonneg_input_def out_of_range_agent_def optimus_will_def)
  have r: "1000 < endorserAvgTrust out_of_range_agent \<and> 100 < uptimePercent out_of_range_agent
     \<and> 100 < auditScore out_of_range_agent"
    by (simp add: out_of_range_agent_def)
  have s: "securityAudit (calculateTrustScore two_months out_of_range_agent) = 100"
    by (simp add: att_fields calcSecurityAudit_def out_of_range_agent_def)
  show ?thesis
    using b h r s computeAttestation_capped [OF b, of two_months] by simp
qed

section \<open>The score at query time\<close>




text \<open>
  C7. When the time elapsed since the last activity is zero or negative, the current
  score is the stored trust score and the decay applied is 0.
\<close>

theorem getCurrentScore_no_elapsed:
  assumes "now - att_lastActivityAt a \<le> 0"
  shows "currentScore (getCurrentScore now a) = trustScore a
     \<and> decayApplied (getCurrentScore now a) = 0"
  using assms by (simp add: getCurrentScore_def Let_def divide_le_0_iff)

text \<open>
  C7 at the moment of the last activity and at a time before it.
\<close>

theorem getCurrentScore_no_elapsed_witness:
  "0 - att_lastActivityAt sample_attestation \<le> 0
   \<and> currentScore (getCurrentScore 0 sample_attestation) = 500
   \<and> decayApplied (getCurrentScore 0 sample_attestation) = 0
   \<and> - 1000 - att_lastActivityAt sample_attestation \<le> 0
   \<and> currentScore (getCurrentScore (- 1000) sample_attestation) = 500
   \<and> decayApplied (getCurrentScore (- 1000) sample_attestation) = 0"
proof -
  have h: "0 - att_lastActivityAt sample_attestation \<le> 0"
    "- 1000 - att_lastActivityAt sample_attestation \<le> 0"
    by (simp_all add: sample_attestation_def)
  have t: "trustScore sample_attestation = 500"
    by (simp add: sample_attestation_def)
  show ?thesis
    using h t getCurrentScore_no_elapsed [OF h(1)] getCurrentScore_no_elapsed [OF h(2)]
    by simp
qed

text \<open>
  C10. The result of the query depends only on the trust score, the four stored activity
  sub-scores, the time of last activity and the query time: two attestations that agree
  on these give the same result at every query time, whatever their other fields.
\<close>

theorem getCurrentScore_depends_only_on:
  assumes "trustScore a = trustScore b"
    and "platformActivity a = platformActivity b"
    and "endorsements a = endorsements b"
    and "reviews a = reviews b"
    and "deploymentMetrics a = deploymentMetrics b"
    and "att_lastActivityAt a = att_lastActivityAt b"
  shows "getCurrentScore now a = getCurrentScore now b"
  using assms by (simp add: getCurrentScore_def)

text \<open>
  C10 at two attestations that differ in identity, tier, issuance time, version, decay
  rate and all four decay-immune sub-scores.
\<close>

theorem getCurrentScore_depends_only_on_witness:
  "trustScore sample_attestation = trustScore other_attestation
   \<and> platformActivity sample_attestation = platformActivity other_attestation
   \<and> endorsements sample_attestation = endorsements other_attestation
   \<and> reviews sample_attestation = reviews other_attestation
   \<and> deploymentMetrics sample_attestation = deploymentMetrics other_attestation
   \<and> att_lastActivityAt sample_attestation = att_lastActivityAt other_attestation
   \<and> att_agentId sample_attestation \<noteq> att_agentId other_attestation
   \<and> att_verificationTier sample_attestation \<noteq> att_verificationTier other_attestation
   \<and> attestedAt sample_attestation \<noteq> attestedAt other_attestation
   \<and> version sample_attestation \<noteq> version other_attestation
   \<and> decayRate sample_attestation \<noteq> decayRate other_attestation
   \<and> skillVerifications sample_attestation \<noteq> skillVerifications other_attestation
   \<and> onchainReputation sample_attestation \<noteq> onchainReputation other_attestation
   \<and> securityAudit sample_attestation \<noteq> securityAudit other_attestation
   \<and> accountAge sample_attestation \<noteq> accountAge other_attestation
   \<and> getCurrentScore two_months sample_attestation = getCurrentScore two_months other_attestation"
proof -
  have h: "trustScore sample_attestation = trustScore other_attestation"
    "platformActivity sample_attestation = platformActivity other_attestation"
    "endorsements sample_attestation = endorsements other_attestation"
    "reviews sample_attestation = reviews other_attestation"
    "deploymentMetrics sample_attestation = deploymentMetrics other_attestation"
    "att_lastActivityAt sample_attestation = att_lastActivityAt other_attestation"
    by (simp_all add: sample_attestation_def other_attestation_def)
  have d: "att_agentId sample_attestation \<noteq> att_agentId other_attestation
   \<and> att_verificationTier sample_attestation \<noteq> att_verificationTier other_attestation
   \<and> attestedAt sample_attestation \<noteq> attestedAt other_attestation
   \<and> version sample_attestation \<noteq> version other_attestation
   \<and> decayRate sample_attestation \<noteq> decayRate other_attestation
   \<and> skillVerifications sample_attestation \<noteq> skillVerifications other_attestation
   \<and> onchainReputation sample_attestation \<noteq> onchainReputation other_attestation
   \<and> securityAudit sample_attestation \<noteq> securityAudit other_attestation
   \<and> accountAge sample_attestation \<noteq> accountAge other_attestation"
    by (simp add: sample_attestation_def other_attestation_def)
  show ?thesis
    using h d getCurrentScore_depends_only_on [OF h, of two_months] by blast
qed

text \<open>
  C5, as stated, fails. The attestation issued for an agent with a passed audit of score
  55.5 has the trust score 55.5, and its current score is not an integer; and an
  attestation record whose trust score field is 2000 has the current score 2000.
\<close>

theorem currentScore_range_counterexample:
  "currentScore (getCurrentScore 0 (calculateTrustScore 0 fractional_audit_agent)) = 111 / 2
   \<and> currentScore (getCurrentScore 0 (calculateTrustScore 0 fractional_audit_agent)) \<notin> \<int>
   \<and> currentScore (getCurrentScore 0 over_range_attestation) = 2000"
proof -
  let ?a = "calculateTrustScore 0 fractional_audit_agent"
  have l: "att_lastActivityAt ?a = 0"
    by (simp add: att_fields fractional_audit_agent_def idle_agent_def)
  have t: "trustScore ?a = 111 / 2"
    by (simp add: att_trustScore calc_defs fractional_audit_agent_def idle_agent_def
        applyDecay_def Math_round_def f_Ints binary64_steps)
  have c: "currentScore (getCurrentScore 0 ?a) = 111 / 2"
    by (simp add: getCurrentScore_def l t)
  have n: "(111 / 2 :: real) \<notin> \<int>"
  proof
    assume "(111 / 2 :: real) \<in> \<int>"
    then obtain k :: int where "(111 / 2 :: real) = of_int k"
      by (rule Ints_cases)
    then have "real_of_int (2 * k) = real_of_int 111" by simp
    then have "2 * k = 111" by (simp only: of_int_eq_iff)
    then show False by presburger
  qed
  have o: "currentScore (getCurrentScore 0 over_range_attestation) = 2000"
    by (simp add: getCurrentScore_def over_range_attestation_def sample_attestation_def)
  have n': "currentScore (getCurrentScore 0 ?a) \<notin> \<int>"
    unfolding c by (rule n)
  show ?thesis using c n' o by blast
qed

text \<open>
  C5, amended. For every attestation that satisfies the invariants of the data model
  (eight integer sub-scores within their intervals, the trust score their sum) and every
  query time, the query returns (it is a total function with no error branch) a current
  score that is an integer between 0 and 1000 and a decay that is an integer at least 0.
\<close>

theorem currentScore_range:
  fixes now :: real and a :: TrustAttestation
  defines "r \<equiv> getCurrentScore now a"
  assumes wf: "wf_attestation a"
  shows "currentScore r \<in> \<int> \<and> 0 \<le> currentScore r \<and> currentScore r \<le> 1000
     \<and> decayApplied r \<in> \<int> \<and> 0 \<le> decayApplied r"
proof -
  define S where "S = platformActivity a + endorsements a + reviews a + deploymentMetrics a"
  define T where "T = skillVerifications a + onchainReputation a + securityAudit a + accountAge a"
  define m where "m = (now - att_lastActivityAt a) / (30 * 24 * 60 * 60 * 1000)"
  define D where "D = Math_round (S * Math_pow (1 - DECAY_RATE_MONTHLY) m)"
  have S: "S \<in> \<int>" "0 \<le> S" "S \<le> 600"
    using wf by (auto simp: wf_attestation_def S_def)
  have T: "T \<in> \<int>" "0 \<le> T" "T \<le> 400"
    using wf by (auto simp: wf_attestation_def T_def)
  have ts: "trustScore a = T + S"
    using wf by (simp add: wf_attestation_def S_def T_def)
  show ?thesis
  proof (cases "m \<le> 0")
    case True
    then have "r = \<lparr> currentScore = trustScore a, decayApplied = 0 \<rparr>"
      unfolding r_def getCurrentScore_def m_def by (simp add: Let_def)
    then show ?thesis using S T ts by simp
  next
    case False
    then have r: "r = \<lparr> currentScore = trustScore a - S + D,
                         decayApplied = trustScore a - (trustScore a - S + D) \<rparr>"
      unfolding r_def getCurrentScore_def m_def D_def S_def by (simp add: Let_def)
    have m0: "0 \<le> m" using False by simp
    have "0 \<le> S * Math_pow (1 - DECAY_RATE_MONTHLY) m"
      using S(2) decayFactor_pos [of m] by (simp add: mult_nonneg_nonneg less_imp_le)
    then have D0: "0 \<le> D" unfolding D_def by (rule Math_round_nonneg)
    have "S * Math_pow (1 - DECAY_RATE_MONTHLY) m \<le> S"
      using decayFactor_pos [of m] decayFactor_le_one [OF m0] S(2) by (intro scaled_le) auto
    then have DS: "D \<le> S" unfolding D_def using S(1) by (simp add: Math_round_le_Ints)
    have DI: "D \<in> \<int>" unfolding D_def by (rule Math_round_Ints)
    have c: "currentScore r = T + D" "decayApplied r = S - D"
      unfolding r ts by simp_all
    have "T + D \<in> \<int>" "S - D \<in> \<int>" using T(1) S(1) DI by simp_all
    then show ?thesis unfolding c using D0 DS S T by auto
  qed
qed

text \<open>
  C5 at a well-formed attestation with trust score 500, two months after its last
  activity.
\<close>

theorem currentScore_range_witness:
  "wf_attestation sample_attestation
   \<and> currentScore (getCurrentScore two_months sample_attestation) \<in> \<int>
   \<and> 0 \<le> currentScore (getCurrentScore two_months sample_attestation)
   \<and> currentScore (getCurrentScore two_months sample_attestation) \<le> 1000
   \<and> decayApplied (getCurrentScore two_months sample_attestation) \<in> \<int>
   \<and> 0 \<le> decayApplied (getCurrentScore two_months sample_attestation)"
proof -
  have h: "wf_attestation sample_attestation"
    by (simp add: wf_attestation_def sample_attestation_def)
  show ?thesis using h currentScore_range [OF h, of two_months] by simp
qed

text \<open>
  C3. An attestation is issued two months after the agent's last activity, and queried at
  the very time of issuance. The issued trust score is 135, already decayed; the query
  decays the stored activity sub-scores a second time over the same two months and
  returns the current score 122 with a decay of 13, where agreement at issuance would
  give 135 and 0.
\<close>

theorem issuance_and_query_disagree:
  "trustScore (calculateTrustScore two_months stale_agent) = 135
   \<and> attestedAt (calculateTrustScore two_months stale_agent) = two_months
   \<and> currentScore (getCurrentScore two_months (calculateTrustScore two_months stale_agent)) = 122
   \<and> decayApplied (getCurrentScore two_months (calculateTrustScore two_months stale_agent)) = 13"
proof -
  let ?a = "calculateTrustScore two_months stale_agent"
  note c = stale_agent_components
  have l: "lastActivityAt stale_agent = 0"
    by (simp add: stale_agent_def idle_agent_def)
  have z: "applyDecay 0 0 two_months = 0"
    by (simp add: applyDecay_def Math_round_def)
  have f: "platformActivity ?a = 135" "endorsements ?a = 0" "reviews ?a = 0"
    "deploymentMetrics ?a = 0" "att_lastActivityAt ?a = 0"
    by (simp_all add: att_fields c l z applyDecay_150)
  have t: "trustScore ?a = 135"
    by (simp add: att_trustScore c l z applyDecay_150 f_Ints)
  have at: "attestedAt ?a = two_months"
    by (simp add: calculateTrustScore_def Let_def)
  have q: "getCurrentScore two_months ?a = \<lparr> currentScore = 122, decayApplied = 13 \<rparr>"
    unfolding getCurrentScore_def f t
    by (simp add: two_months_def Math_pow_def DECAY_RATE_MONTHLY_def Math_round_def power2_eq_square)
  show ?thesis using t at q by simp
qed

section \<open>Decay over time\<close>

text \<open>
  C6. For a non-negative integer starting score and two positive elapsed times, the
  earlier one first, the score decayed over the longer time is at most the score
  decayed over the shorter time, and a decayed score never exceeds the starting score,
  at any time. The same holds for the current score of an attestation whose stored
  activity subtotal is that starting score: it does not grow with the query time and
  never exceeds the trust score.
\<close>

theorem decay_monotone:
  fixes score l now1 now2 now :: real and a :: TrustAttestation
  assumes int: "score \<in> \<int>" and nonneg: "0 \<le> score"
    and e1: "0 < now1 - l" and lt: "now1 - l < now2 - l"
  shows "applyDecay score l now2 \<le> applyDecay score l now1
     \<and> applyDecay score l now \<le> score
     \<and> (att_lastActivityAt a = l
          \<and> platformActivity a + endorsements a + reviews a + deploymentMetrics a = score
        \<longrightarrow> currentScore (getCurrentScore now2 a) \<le> currentScore (getCurrentScore now1 a)
          \<and> currentScore (getCurrentScore now a) \<le> trustScore a)"
proof -
  have mono: "applyDecay score l now2 \<le> applyDecay score l now1"
    using nonneg e1 lt by (intro applyDecay_antimono) simp_all
  have le: "applyDecay score l t \<le> score" for t
    using int nonneg by (rule applyDecay_le_self)
  have q: "currentScore (getCurrentScore now2 a) \<le> currentScore (getCurrentScore now1 a)
          \<and> currentScore (getCurrentScore now a) \<le> trustScore a"
    if "att_lastActivityAt a = l"
      "platformActivity a + endorsements a + reviews a + deploymentMetrics a = score"
    unfolding currentScore_applyDecay that using mono le [of now] by simp
  show ?thesis using mono le [of now] q by blast
qed

text \<open>
  C6 at the starting score 200, one month and two months after the last activity:
  190 and 181.
\<close>

theorem decay_monotone_witness:
  "(200 :: real) \<in> \<int> \<and> (0 :: real) \<le> 200 \<and> 0 < two_months / 2 - (0 :: real)
   \<and> two_months / 2 - 0 < two_months - (0 :: real)
   \<and> applyDecay 200 0 (two_months / 2) = 190 \<and> applyDecay 200 0 two_months = 181
   \<and> applyDecay 200 0 two_months \<le> applyDecay 200 0 (two_months / 2)
   \<and> applyDecay 200 0 two_months \<le> 200
   \<and> att_lastActivityAt sample_attestation = 0
   \<and> platformActivity sample_attestation + endorsements sample_attestation
       + reviews sample_attestation + deploymentMetrics sample_attestation = 200
   \<and> currentScore (getCurrentScore two_months sample_attestation)
       \<le> currentScore (getCurrentScore (two_months / 2) sample_attestation)
   \<and> currentScore (getCurrentScore two_months sample_attestation)
       \<le> trustScore sample_attestation"
proof -
  have h: "(200 :: real) \<in> \<int>" "(0 :: real) \<le> 200" "0 < two_months / 2 - (0 :: real)"
    "two_months / 2 - 0 < two_months - (0 :: real)"
    by (simp_all add: two_months_def)
  have s: "att_lastActivityAt sample_attestation = 0"
    "platformActivity sample_attestation + endorsements sample_attestation
       + reviews sample_attestation + deploymentMetrics sample_attestation = 200"
    by (simp_all add: sample_attestation_def)
  show ?thesis
    using h s applyDecay_200
      decay_monotone [OF h, of two_months sample_attestation]
    by simp
qed

section \<open>Skill verifications and security audit\<close>

text \<open>
  C8, as stated, fails on the rounding, in both readings of it. With -1 verified of 8
  skills the exact value is -17.5: the program returns -17, and the spec's rounding away
  from zero gives -18. With -11 verified of 40 the exact value is -82.5, which rounded
  as the program rounds is -82: the program returns -83, because its binary64 sum is
  just below -82.5.
\<close>

theorem skillVerifications_rounding_counterexample:
  "skillVerifications (calculateTrustScore 0 skills_m1_of_8) = - 17
   \<and> min (of_int (spec_round
             (verifiedSkills skills_m1_of_8 / max (totalSkills skills_m1_of_8) 1 * 100
              + min (verifiedSkills skills_m1_of_8 / 10) 1 * 50))) 150
       = (- 18 :: real)
   \<and> skillVerifications (calculateTrustScore 0 skills_m11_of_40) = - 83
   \<and> min (of_int \<lfloor>verifiedSkills skills_m11_of_40 / max (totalSkills skills_m11_of_40) 1 * 100
                   + min (verifiedSkills skills_m11_of_40 / 10) 1 * 50 + 1 / 2\<rfloor>) 150
       = (- 82 :: real)"
  by (simp add: att_fields skill_examples)
     (simp add: skills_m1_of_8_def skills_m11_of_40_def spec_round_def)

text \<open>
  C8, amended. The skill-verification sub-score of the attestation is the one the scorer
  computes (it is not decayed). It is 0 whenever the total number of skills is 0, for
  every number of verified skills. Otherwise, when the number of verified skills is a
  finite number not below minus 10 to the power 300, it is the sum of the verified ratio
  times 100 and the capped count bonus times 50, each operation rounded to binary64, then
  rounded to the nearest integer with a tie going up, and capped at 150. With 6 skills,
  all verified, it is 130.
\<close>

theorem skillVerifications_formula:
  fixes now :: real and d :: AgentPlatformData
  defines "sv \<equiv> skillVerifications (calculateTrustScore now d)"
  shows "sv = calcSkillVerifications d
     \<and> (totalSkills d = 0 \<longrightarrow> sv = 0)
     \<and> (totalSkills d \<noteq> 0 \<and> - (10 ^ 300) \<le> verifiedSkills d \<longrightarrow>
          sv = min (of_int
                 \<lfloor>fadd (fmul (fdiv (verifiedSkills d) (max (totalSkills d) 1)) 100)
                       (fmul (min (fdiv (verifiedSkills d) 10) 1) 50)
                  + 1 / 2\<rfloor>) 150)
     \<and> (totalSkills d = 6 \<and> verifiedSkills d = 6 \<longrightarrow> sv = 130)"
proof -
  have f: "sv = calcSkillVerifications d"
    unfolding sv_def by (simp add: att_fields)
  have z: "sv = 0" if "totalSkills d = 0"
    unfolding f using that by (simp add: calcSkillVerifications_def)
  have g: "sv = min (of_int
                 \<lfloor>fadd (fmul (fdiv (verifiedSkills d) (max (totalSkills d) 1)) 100)
                       (fmul (min (fdiv (verifiedSkills d) 10) 1) 50)
                  + 1 / 2\<rfloor>) 150"
    if "totalSkills d \<noteq> 0"
    unfolding f using that by (simp add: calcSkillVerifications_def Let_def Math_round_def)
  have e: "sv = 130" if "totalSkills d = 6 \<and> verifiedSkills d = 6"
    unfolding f using that
    by (simp add: calcSkillVerifications_def Let_def Math_round_def binary64_steps f_Ints)
  show ?thesis using f z g e by blast
qed

text \<open>
  C8 at an agent with no skills listed but 7 claimed verified, at the demo agent with 6
  of 6, and at agents with 1 of 3 (38.33 rounds to 38) and 1 of 8 (the tie 17.5 rounds
  up to 18).
\<close>

theorem skillVerifications_formula_witness:
  "totalSkills no_skills_agent = 0 \<and> verifiedSkills no_skills_agent = 7
   \<and> skillVerifications (calculateTrustScore two_months no_skills_agent) = 0
   \<and> totalSkills optimus_will \<noteq> 0 \<and> - (10 ^ 300) \<le> verifiedSkills optimus_will
   \<and> totalSkills optimus_will = 6 \<and> verifiedSkills optimus_will = 6
   \<and> skillVerifications (calculateTrustScore two_months optimus_will) = 130
   \<and> totalSkills skills_1_of_3 \<noteq> 0 \<and> - (10 ^ 300) \<le> verifiedSkills skills_1_of_3
   \<and> skillVerifications (calculateTrustScore two_months skills_1_of_3) = 38
   \<and> totalSkills skills_1_of_8 \<noteq> 0 \<and> - (10 ^ 300) \<le> verifiedSkills skills_1_of_8
   \<and> skillVerifications (calculateTrustScore two_months skills_1_of_8) = 18"
proof -
  have b: "totalSkills optimus_will \<noteq> 0 \<and> - (10 ^ 300) \<le> verifiedSkills optimus_will"
    "totalSkills skills_1_of_3 \<noteq> 0 \<and> - (10 ^ 300) \<le> verifiedSkills skills_1_of_3"
    "totalSkills skills_1_of_8 \<noteq> 0 \<and> - (10 ^ 300) \<le> verifiedSkills skills_1_of_8"
    by (simp_all add: optimus_will_def skills_1_of_3_def skills_1_of_8_def)
  have h: "totalSkills no_skills_agent = 0" "verifiedSkills no_skills_agent = 7"
    "totalSkills optimus_will = 6" "verifiedSkills optimus_will = 6"
    by (simp_all add: no_skills_agent_def optimus_will_def)
  show ?thesis
    using b h skill_examples(3,4)
      skillVerifications_formula [of two_months no_skills_agent]
      skillVerifications_formula [of two_months optimus_will]
      skillVerifications_formula [of two_months skills_1_of_3]
      skillVerifications_formula [of two_months skills_1_of_8]
    by simp
qed

text \<open>
  C9. The security-audit sub-score of the attestation is 0 whenever the audit has not
  passed, whatever the audit score, and the audit score capped at 100 when it has.
\<close>

theorem securityAudit_formula:
  fixes now :: real and d :: AgentPlatformData
  defines "sa \<equiv> securityAudit (calculateTrustScore now d)"
  shows "sa = calcSecurityAudit d
     \<and> (\<not> securityAuditPassed d \<longrightarrow> sa = 0)
     \<and> (securityAuditPassed d \<longrightarrow> sa = min (auditScore d) 100)"
  unfolding sa_def by (simp add: att_fields calcSecurityAudit_def)

text \<open>
  C9 at an agent with a failed audit of score 80, and at one with a passed audit of
  score 120.
\<close>

theorem securityAudit_formula_witness:
  "\<not> securityAuditPassed failed_audit_agent \<and> auditScore failed_audit_agent = 80
   \<and> securityAudit (calculateTrustScore two_months failed_audit_agent) = 0
   \<and> securityAuditPassed out_of_range_agent \<and> auditScore out_of_range_agent = 120
   \<and> securityAudit (calculateTrustScore two_months out_of_range_agent) = 100"
proof -
  have h: "\<not> securityAuditPassed failed_audit_agent" "auditScore failed_audit_agent = 80"
    "securityAuditPassed out_of_range_agent" "auditScore out_of_range_agent = 120"
    by (simp_all add: failed_audit_agent_def out_of_range_agent_def)
  show ?thesis
    using h securityAudit_formula [of two_months failed_audit_agent]
      securityAudit_formula [of two_months out_of_range_agent]
    by simp
qed

end
